theory Spec2Isabelle
  imports Complex_Main
begin

section \<open>Data model of the graph visualisation component\<close>

text \<open>
  The component \<open>GraphVisualization\<close> receives the property \<open>recommendedIds\<close>, fetches a JSON
  document \<open>data = {nodes: [...], links: [...]}\<close> and annotates every node with a
  \<open>type\<close> before handing nodes and links to the force layout.
\<close>

text \<open>
  Primitive JavaScript values, as \<open>JSON.parse\<close> produces them. A number is modelled by its
  exact rational value, so arithmetic on numbers is exact here; the two zeros and the
  rounding of IEEE doubles are not represented. \<open>JUndefined\<close> is what reading an absent
  property gives. \<open>Set.has\<close> and \<open>===\<close> on such values agree with equality of the model
  (a number and the string of its digits are different values). Node ids and the members
  of \<open>recommendedIds\<close> are primitives.
\<close>

datatype jsprim = JUndefined | JNull | JBool bool | JNum rat | JStr string

text \<open>
  An end of a link, \<open>link.source\<close> or \<open>link.target\<close>: either a primitive (the node id
  that the fetched document carries) or an object, of which only the value read by
  \<open>.id\<close> matters (\<open>JUndefined\<close> when the object has no such property).
\<close>

datatype endpoint = Prim jsprim | Obj jsprim

text \<open>
  The exceptions of the \<open>try\<close> block: the TypeError of a property read on \<open>undefined\<close> or
  \<open>null\<close>, and the \<open>Error("node not found: " + nodeId)\<close> that the link force raises for
  an id that no node carries.
\<close>

datatype error = TypeError | NodeNotFound jsprim

text \<open>
  A node of the document. \<open>node_id\<close>, \<open>node_value\<close> and \<open>node_type\<close> are the properties
  \<open>id\<close>, \<open>value\<close> and \<open>type\<close>; \<open>value\<close> is a number, and an absent \<open>type\<close> or
  \<open>recommendation_type\<close> reads \<open>JUndefined\<close>.
\<close>

record node =
  node_id :: jsprim
  name :: jsprim
  brand :: jsprim
  gender :: jsprim
  price :: jsprim
  color :: jsprim
  node_value :: rat
  recommendation_type :: jsprim
  node_type :: jsprim

record link =
  source :: endpoint
  target :: endpoint
  similarity_score :: rat

record graph_data =
  nodes :: "node list"
  links :: "link list"

section \<open>Classification (fetchAndRenderGraph, lines 97-147)\<close>

text \<open>
  The property read \<open>e.id\<close>: it raises a TypeError on \<open>undefined\<close> and \<open>null\<close>, gives
  \<open>undefined\<close> on every other primitive (booleans, numbers and strings have no property
  \<open>id\<close>) and gives the stored value on an object.
\<close>

fun get_id :: "endpoint \<Rightarrow> error + jsprim" where
  "get_id (Prim JUndefined) = Inl TypeError"
| "get_id (Prim JNull) = Inl TypeError"
| "get_id (Prim (JBool b)) = Inr JUndefined"
| "get_id (Prim (JNum r)) = Inr JUndefined"
| "get_id (Prim (JStr s)) = Inr JUndefined"
| "get_id (Obj i) = Inr i"

text \<open>
  \<open>new Set(data.nodes.filter(n => n.type === 'pagerank' ||
  n.recommendation_type === 'pagerank').map(n => n.id))\<close>
\<close>

definition pagerankSet :: "node list \<Rightarrow> jsprim set" where
  "pagerankSet ns =
     set (map node_id
       (filter (\<lambda>n. node_type n = JStr ''pagerank'' \<or> recommendation_type n = JStr ''pagerank'') ns))"

text \<open>
  One statement \<open>if (S.has(a.id)) { connectedSet.add(b.id); }\<close> of the loop body, on the
  connected set \<open>C\<close> built so far.
\<close>

definition if_has_add :: "jsprim set \<Rightarrow> endpoint \<Rightarrow> endpoint \<Rightarrow> jsprim set \<Rightarrow> error + jsprim set" where
  "if_has_add S a b C =
     (case get_id a of
        Inl e \<Rightarrow> Inl e
      | Inr i \<Rightarrow>
          if i \<in> S
          then (case get_id b of Inl e \<Rightarrow> Inl e | Inr j \<Rightarrow> Inr (insert j C))
          else Inr C)"

text \<open>The body of \<open>data.links.forEach(link => ...)\<close>: four such statements in sequence.\<close>

definition link_body :: "jsprim set \<Rightarrow> jsprim set \<Rightarrow> jsprim set \<Rightarrow> link \<Rightarrow> error + jsprim set" where
  "link_body recommendedSet pagerankSet' C l =
     (case if_has_add recommendedSet (source l) (target l) C of
        Inl e \<Rightarrow> Inl e
      | Inr C1 \<Rightarrow>
     (case if_has_add recommendedSet (target l) (source l) C1 of
        Inl e \<Rightarrow> Inl e
      | Inr C2 \<Rightarrow>
     (case if_has_add pagerankSet' (source l) (target l) C2 of
        Inl e \<Rightarrow> Inl e
      | Inr C3 \<Rightarrow> if_has_add pagerankSet' (target l) (source l) C3)))"

text \<open>The loop over the links; an exception leaves the loop at once.\<close>

fun connectedSet :: "jsprim set \<Rightarrow> jsprim set \<Rightarrow> link list \<Rightarrow> jsprim set \<Rightarrow> error + jsprim set" where
  "connectedSet recommendedSet pagerankSet' [] C = Inr C"
| "connectedSet recommendedSet pagerankSet' (l # ls) C =
     (case link_body recommendedSet pagerankSet' C l of
        Inl e \<Rightarrow> Inl e
      | Inr C' \<Rightarrow> connectedSet recommendedSet pagerankSet' ls C')"

text \<open>The body of \<open>data.nodes.forEach(node => ...)\<close>: the assignment to \<open>node.type\<close>.\<close>

definition assign_type :: "jsprim set \<Rightarrow> jsprim set \<Rightarrow> jsprim set \<Rightarrow> node \<Rightarrow> node" where
  "assign_type recommendedSet pagerankSet' C n =
     (if node_id n \<in> recommendedSet then n\<lparr>node_type := JStr ''recommended''\<rparr>
      else if node_id n \<in> pagerankSet' \<or> recommendation_type n = JStr ''pagerank''
        then n\<lparr>node_type := JStr ''pagerank''\<rparr>
      else if node_id n \<in> C then n\<lparr>node_type := JStr ''connected''\<rparr>
      else n\<lparr>node_type := JStr ''other''\<rparr>)"

text \<open>
  The whole classification: the three sets, then the pass over the nodes. The nodes are
  updated in place in the source; the model returns the updated document.
\<close>

definition classify :: "jsprim list \<Rightarrow> graph_data \<Rightarrow> error + graph_data" where
  "classify recommendedIds data =
     (let recommendedSet = set recommendedIds;
          pagerankSet' = pagerankSet (nodes data)
      in case connectedSet recommendedSet pagerankSet' (links data) {} of
           Inl e \<Rightarrow> Inl e
         | Inr C \<Rightarrow> Inr (data\<lparr>nodes := map (assign_type recommendedSet pagerankSet' C) (nodes data)\<rparr>))"

text \<open>A node that carries only an id and, possibly, a recommendation tag.\<close>

definition bare_node :: "jsprim \<Rightarrow> jsprim \<Rightarrow> node" where
  "bare_node i rt =
     \<lparr>node_id = i, name = JUndefined, brand = JUndefined, gender = JUndefined,
      price = JUndefined, color = JUndefined, node_value = 0,
      recommendation_type = rt, node_type = JUndefined\<rparr>"

text \<open>
  Scenario A of the specification: nodes \<open>[{id:1, recommendation_type:'pagerank'}, {id:2}]\<close>
  and the edge \<open>{source: 1, target: 2}\<close>.
\<close>

definition scenario_A :: graph_data where
  "scenario_A =
     \<lparr>nodes = [bare_node (JNum 1) (JStr ''pagerank''), bare_node (JNum 2) JUndefined],
      links = [\<lparr>source = Prim (JNum 1), target = Prim (JNum 2), similarity_score = 1\<rparr>]\<rparr>"

section \<open>Layout and rendering (fetchAndRenderGraph, lines 149-178)\<close>

text \<open>
  The radius callback of the circles:
  \<open>.attr('r', d => { const baseSize = Math.max(8, d.value * 20); ... })\<close>.
\<close>

definition radius :: "node \<Rightarrow> rat" where
  "radius d =
     (let baseSize = max 8 (node_value d * 20)
      in if node_type d = JStr ''recommended'' then baseSize * (11 / 10)
         else if node_type d = JStr ''pagerank'' then baseSize * (11 / 10)
         else if node_type d = JStr ''connected'' then baseSize * (105 / 100)
         else baseSize)"

text \<open>
  The radius given to the collision force, \<open>d3.forceCollide().radius(20)\<close>: the same
  number for every node.
\<close>

definition collision_radius :: "node \<Rightarrow> rat" where
  "collision_radius d = 20"

text \<open>
  The link force, \<open>d3.forceLink(data.links).id(d => d.id)\<close>, is initialised when it is
  registered with the simulation (line 151). The library d3-force is not part of the
  repository; the three definitions below follow the initialisation of its link force
  (\<open>find\<close> and \<open>initialize\<close> of its \<open>link.js\<close>, in the versions whose event handlers
  have the signature \<open>(event, d)\<close> that the component uses):
  \<^verbatim>\<open>
  function find(nodeById, nodeId) {
    var node = nodeById.get(nodeId);
    if (!node) throw new Error("node not found: " + nodeId);
    return node;
  }
  nodeById = new Map(nodes.map((d, i) => [id(d, i, nodes), d]));
  for (i = 0; i < m; ++i) {
    link = links[i], link.index = i;
    if (typeof link.source !== "object") link.source = find(nodeById, link.source);
    if (typeof link.target !== "object") link.target = find(nodeById, link.target);
    count[link.source.index] = (count[link.source.index] || 0) + 1;
    count[link.target.index] = (count[link.target.index] || 0) + 1;
  }
  \<close>
  The node found for an id is an object whose \<open>.id\<close> reads that id.
\<close>

definition find_node :: "node list \<Rightarrow> jsprim \<Rightarrow> error + endpoint" where
  "find_node ns nodeId =
     (if nodeId \<in> set (map node_id ns) then Inr (Obj nodeId) else Inl (NodeNotFound nodeId))"

text \<open>
  \<open>if (typeof e !== "object") e = find(nodeById, e)\<close>: objects are kept, and so is
  \<open>null\<close>, whose \<open>typeof\<close> is \<open>"object"\<close>; every other primitive is looked up.
\<close>

fun resolve_end :: "node list \<Rightarrow> endpoint \<Rightarrow> error + endpoint" where
  "resolve_end ns (Obj i) = Inr (Obj i)"
| "resolve_end ns (Prim JNull) = Inr (Prim JNull)"
| "resolve_end ns (Prim p) = find_node ns p"

text \<open>
  One turn of the loop: both ends are resolved, the source first, and then \<open>.index\<close> is
  read on both, which raises a TypeError on an end that is still \<open>null\<close>. The link is
  updated in place; its new \<open>index\<close> property is not represented.
\<close>

definition initialize_link :: "node list \<Rightarrow> link \<Rightarrow> error + link" where
  "initialize_link ns l =
     (case resolve_end ns (source l) of
        Inl e \<Rightarrow> Inl e
      | Inr s \<Rightarrow>
     (case resolve_end ns (target l) of
        Inl e \<Rightarrow> Inl e
      | Inr t \<Rightarrow>
          if s = Prim JNull \<or> t = Prim JNull then Inl TypeError
          else Inr (l\<lparr>source := s, target := t\<rparr>)))"

fun forceLink_initialize :: "node list \<Rightarrow> link list \<Rightarrow> error + link list" where
  "forceLink_initialize ns [] = Inr []"
| "forceLink_initialize ns (l # ls) =
     (case initialize_link ns l of
        Inl e \<Rightarrow> Inl e
      | Inr l' \<Rightarrow>
     (case forceLink_initialize ns ls of
        Inl e \<Rightarrow> Inl e
      | Inr ls' \<Rightarrow> Inr (l' # ls')))"

text \<open>
  What the layout and the drawing work on once the try block has run through: the nodes of
  \<open>d3.forceSimulation(data.nodes)\<close>, the links of the link force, the data of the \<open>line\<close>
  elements and the data of the \<open>circle\<close> elements with their radii. The positions and
  velocities that the simulation writes into the nodes are not represented.
\<close>

record scene =
  simulation_nodes :: "node list"
  force_links :: "link list"
  line_data :: "link list"
  circle_data :: "node list"
  circle_r :: "rat list"

text \<open>
  The body of the \<open>try\<close> block from the fetched document on: the classification, the
  set-up of the simulation with its link force, then the lines and the circles, bound
  to \<open>data.links\<close> and \<open>data.nodes\<close> as the link force and the classification left them.
  \<open>Inl\<close> is the exception that the \<open>catch\<close> block logs; the statements after the one
  that raised are not run, so neither lines nor circles are drawn then.
\<close>

definition fetchAndRenderGraph :: "jsprim list \<Rightarrow> graph_data \<Rightarrow> error + scene" where
  "fetchAndRenderGraph recommendedIds data =
     (case classify recommendedIds data of
        Inl e \<Rightarrow> Inl e
      | Inr data' \<Rightarrow>
     (case forceLink_initialize (nodes data') (links data') of
        Inl e \<Rightarrow> Inl e
      | Inr links' \<Rightarrow>
          Inr \<lparr>simulation_nodes = nodes data', force_links = links',
               line_data = links', circle_data = nodes data',
               circle_r = map radius (nodes data')\<rparr>))"

section \<open>Auxiliary notions for the statements\<close>

text \<open>An end of a link whose \<open>.id\<close> can be read: anything but \<open>undefined\<close> and \<open>null\<close>.\<close>

definition readable :: "endpoint \<Rightarrow> bool" where
  "readable e = (e \<noteq> Prim JUndefined \<and> e \<noteq> Prim JNull)"

definition readable_links :: "link list \<Rightarrow> bool" where
  "readable_links ls = list_all (\<lambda>l. readable (source l) \<and> readable (target l)) ls"

text \<open>
  An end of a link that names no node of the list: a primitive that is the id of none of
  them.
\<close>

fun unknown_end :: "node list \<Rightarrow> endpoint \<Rightarrow> bool" where
  "unknown_end ns (Prim p) = (p \<notin> set (map node_id ns))"
| "unknown_end ns (Obj i) = False"

definition has_unknown_end :: "node list \<Rightarrow> link list \<Rightarrow> bool" where
  "has_unknown_end ns ls = list_ex (\<lambda>l. unknown_end ns (source l) \<or> unknown_end ns (target l)) ls"

text \<open>The four roles.\<close>

definition roles :: "jsprim set" where
  "roles = {JStr ''recommended'', JStr ''pagerank'', JStr ''connected'', JStr ''other''}"

text \<open>
  The membership test for the pagerank set as the simpler reading has it: the ids of the
  nodes whose \<open>recommendation_type\<close> is \<open>'pagerank'\<close>.
\<close>

definition pagerankSet_by_recommendation_type :: "node list \<Rightarrow> jsprim set" where
  "pagerankSet_by_recommendation_type ns =
     set (map node_id (filter (\<lambda>n. recommendation_type n = JStr ''pagerank'') ns))"

text \<open>
  Scenario A with the ends of the edge given as objects that carry the ids, the shape the
  links have once the link force has replaced the ids by the nodes.
\<close>

definition scenario_A_resolved :: graph_data where
  "scenario_A_resolved =
     scenario_A\<lparr>links := [\<lparr>source = Obj (JNum 1), target = Obj (JNum 2), similarity_score = 1\<rparr>]\<rparr>"

text \<open>
  A recommended node of the highest centrality, \<open>value = 1\<close>, as the classification
  leaves it.
\<close>

definition promoted_node :: node where
  "promoted_node = (bare_node (JNum 1) JUndefined)\<lparr>node_value := 1, node_type := JStr ''recommended''\<rparr>"


section \<open>Facts about the loop over the links\<close>

lemma get_id_Inl: "get_id e = Inl x \<Longrightarrow> x = TypeError"
  by (cases e rule: get_id.cases) simp_all

lemma get_id_error: "get_id e = Inl TypeError \<longleftrightarrow> \<not> readable e"
  by (cases e rule: get_id.cases) (simp_all add: readable_def)

lemma get_id_Inr_readable: "get_id e = Inr i \<Longrightarrow> readable e"
  by (cases e rule: get_id.cases) (simp_all add: readable_def)

lemma get_id_readable: "readable e \<Longrightarrow> \<exists>i. get_id e = Inr i"
  by (cases e rule: get_id.cases) (simp_all add: readable_def)

text \<open>
  The body of the loop adds the other end of the link for each end whose id is in one of
  the two sets; it raises exactly when one of the two ends is \<open>undefined\<close> or \<open>null\<close>.
\<close>

lemma link_body_eq:
  "link_body R P C l =
     (case get_id (source l) of
        Inl e \<Rightarrow> Inl TypeError
      | Inr s \<Rightarrow>
          (case get_id (target l) of
             Inl e \<Rightarrow> Inl TypeError
           | Inr t \<Rightarrow>
               Inr (C \<union> (if s \<in> R \<union> P then {t} else {}) \<union> (if t \<in> R \<union> P then {s} else {}))))"
  by (cases "get_id (source l)"; cases "get_id (target l)")
     (auto simp: link_body_def if_has_add_def dest: get_id_Inl)

lemma link_body_union_cong:
  "R \<union> P = R \<union> P' \<Longrightarrow> link_body R P C l = link_body R P' C l"
  by (simp only: link_body_eq)

lemma connectedSet_union_cong:
  "R \<union> P = R \<union> P' \<Longrightarrow> connectedSet R P ls C = connectedSet R P' ls C"
  by (induction ls arbitrary: C)
     (simp_all add: link_body_union_cong [of R P P'] split: sum.splits)

lemma connectedSet_readable:
  "readable_links ls \<Longrightarrow> \<exists>C'. connectedSet R P ls C = Inr C'"
proof (induction ls arbitrary: C)
  case Nil
  then show ?case by simp
next
  case (Cons l ls)
  from Cons.prems have rs: "readable (source l)" and rt: "readable (target l)"
    and rest: "readable_links ls"
    by (simp_all add: readable_links_def)
  from rs obtain s where s: "get_id (source l) = Inr s" using get_id_readable by blast
  from rt obtain t where t: "get_id (target l) = Inr t" using get_id_readable by blast
  from s t obtain C1 where "link_body R P C l = Inr C1"
    by (simp add: link_body_eq)
  with Cons.IH [OF rest, of C1] show ?case by simp
qed

lemma connectedSet_Inr_readable:
  "connectedSet R P ls C = Inr C' \<Longrightarrow> readable_links ls"
proof (induction ls arbitrary: C)
  case Nil
  then show ?case by (simp add: readable_links_def)
next
  case (Cons l ls)
  then show ?case
    by (auto simp: readable_links_def link_body_eq dest: get_id_Inr_readable
        split: sum.splits)
qed

text \<open>
  On links whose ends are primitives, as the fetched document has them, every id read is
  \<open>undefined\<close>: unless \<open>undefined\<close> is itself a member of one of the sets, nothing is
  ever added.
\<close>

lemma connectedSet_primitive_ends:
  assumes "list_all (\<lambda>l. (\<exists>p. source l = Prim p) \<and> (\<exists>q. target l = Prim q)) ls"
    and "readable_links ls"
    and "JUndefined \<notin> R \<union> P"
  shows "connectedSet R P ls C = Inr C"
  using assms
proof (induction ls)
  case Nil
  then show ?case by simp
next
  case (Cons l ls)
  from Cons.prems obtain p q where p: "source l = Prim p" and q: "target l = Prim q"
    by auto
  from Cons.prems p have "get_id (Prim p) = Inr JUndefined"
    by (cases p) (simp_all add: readable_links_def readable_def)
  moreover from Cons.prems q have "get_id (Prim q) = Inr JUndefined"
    by (cases q) (simp_all add: readable_links_def readable_def)
  ultimately have "link_body R P C l = Inr C"
    using Cons.prems(3) p q by (simp add: link_body_eq)
  with Cons show ?case by (simp add: readable_links_def)
qed

text \<open>
  Once the ends of the links are objects (as they are after the link force has resolved
  them), the loop does collect the neighbours of the recommended and pagerank nodes.
\<close>

lemma connectedSet_mono: "connectedSet R P ls C = Inr C' \<Longrightarrow> C \<subseteq> C'"
proof (induction ls arbitrary: C)
  case Nil
  then show ?case by simp
next
  case (Cons l ls)
  from Cons.prems obtain C1 where 1: "link_body R P C l = Inr C1"
    and 2: "connectedSet R P ls C1 = Inr C'"
    by (auto split: sum.splits)
  from 1 have "C \<subseteq> C1"
    by (auto simp: link_body_eq split: sum.splits)
  with Cons.IH [OF 2] show ?case by blast
qed

lemma connectedSet_neighbours:
  assumes "connectedSet R P ls C = Inr C'" and "l \<in> set ls"
    and "get_id (source l) = Inr s" and "get_id (target l) = Inr t"
  shows "(s \<in> R \<union> P \<longrightarrow> t \<in> C') \<and> (t \<in> R \<union> P \<longrightarrow> s \<in> C')"
  using assms(1,2)
proof (induction ls arbitrary: C)
  case Nil
  then show ?case by simp
next
  case (Cons k ls)
  from Cons.prems(1) obtain C1 where 1: "link_body R P C k = Inr C1"
    and 2: "connectedSet R P ls C1 = Inr C'"
    by (auto split: sum.splits)
  show ?case
  proof (cases "l = k")
    case True
    with 1 assms(3,4) have "(s \<in> R \<union> P \<longrightarrow> t \<in> C1) \<and> (t \<in> R \<union> P \<longrightarrow> s \<in> C1)"
      by (auto simp: link_body_eq)
    with connectedSet_mono [OF 2] show ?thesis by blast
  next
    case False
    with Cons.prems(2) have "l \<in> set ls" by simp
    from Cons.IH [OF 2 this] show ?thesis .
  qed
qed

section \<open>Connected nodes\<close>

text \<open>
  C1. The specification says that a node outside both sets that shares an edge with a
  recommended or pagerank node becomes \<open>connected\<close>, and that node 2 of scenario A does.
  On links that carry node ids, \<open>link.source.id\<close> is \<open>undefined\<close>, the connected set
  stays empty and node 2 is classified \<open>other\<close>.
\<close>

theorem scenario_A_node_2_is_other:
  "classify [] scenario_A =
     Inr (scenario_A\<lparr>nodes :=
       [(bare_node (JNum 1) (JStr ''pagerank''))\<lparr>node_type := JStr ''pagerank''\<rparr>,
        (bare_node (JNum 2) JUndefined)\<lparr>node_type := JStr ''other''\<rparr>]\<rparr>)"
  by (simp add: classify_def scenario_A_def bare_node_def pagerankSet_def link_body_def
      if_has_add_def assign_type_def)

text \<open>On the resolved shape of scenario A node 2 does become \<open>connected\<close>.\<close>

lemma scenario_A_resolved_roles:
  "classify [] scenario_A_resolved =
     Inr (scenario_A_resolved\<lparr>nodes :=
       [(bare_node (JNum 1) (JStr ''pagerank''))\<lparr>node_type := JStr ''pagerank''\<rparr>,
        (bare_node (JNum 2) JUndefined)\<lparr>node_type := JStr ''connected''\<rparr>]\<rparr>)"
  by (simp add: classify_def scenario_A_resolved_def scenario_A_def bare_node_def
      pagerankSet_def link_body_def if_has_add_def assign_type_def)

section \<open>Facts about the pass over the nodes\<close>

lemma assign_type_node_id [simp]: "node_id (assign_type R P C n) = node_id n"
  by (simp add: assign_type_def)

lemma assign_type_recommendation_type [simp]:
  "recommendation_type (assign_type R P C n) = recommendation_type n"
  by (simp add: assign_type_def)

lemma assign_type_roles: "node_type (assign_type R P C n) \<in> roles"
  by (simp add: assign_type_def roles_def)

lemma assign_type_restore: "(assign_type R P C n)\<lparr>node_type := node_type n\<rparr> = n"
  by (simp add: assign_type_def)

lemma assign_type_pagerank:
  "node_type (assign_type R P C n) = JStr ''pagerank'' \<longleftrightarrow>
     node_id n \<notin> R \<and> (node_id n \<in> P \<or> recommendation_type n = JStr ''pagerank'')"
  by (simp add: assign_type_def)

lemma classify_Inr:
  assumes "classify recommendedIds data = Inr data'"
  obtains C where
    "connectedSet (set recommendedIds) (pagerankSet (nodes data)) (links data) {} = Inr C"
    and "data' = data\<lparr>nodes :=
           map (assign_type (set recommendedIds) (pagerankSet (nodes data)) C) (nodes data)\<rparr>"
  using assms by (auto simp: classify_def Let_def split: sum.splits)

lemma classify_readable:
  assumes "readable_links (links data)"
  shows "\<exists>data'. classify recommendedIds data = Inr data'"
proof -
  from connectedSet_readable [OF assms]
  obtain C where
    "connectedSet (set recommendedIds) (pagerankSet (nodes data)) (links data) {} = Inr C"
    by blast
  then show ?thesis by (simp add: classify_def Let_def)
qed

lemma in_pagerankSet:
  "x \<in> pagerankSet ns \<longleftrightarrow>
     (\<exists>n \<in> set ns. node_id n = x \<and>
        (node_type n = JStr ''pagerank'' \<or> recommendation_type n = JStr ''pagerank''))"
  by (auto simp: pagerankSet_def)

lemma recommendation_type_in_pagerankSet:
  "n \<in> set ns \<Longrightarrow> recommendation_type n = JStr ''pagerank'' \<Longrightarrow> node_id n \<in> pagerankSet ns"
  by (auto simp: pagerankSet_def)

text \<open>
  After the pass, the pagerank set computed from the annotated nodes differs from the
  first one only by ids that are recommended.
\<close>

lemma pagerankSet_after_pass:
  "R \<union> pagerankSet (map (assign_type R (pagerankSet ns) C) ns) = R \<union> pagerankSet ns"
proof (intro set_eqI iffI)
  fix x
  assume "x \<in> R \<union> pagerankSet (map (assign_type R (pagerankSet ns) C) ns)"
  then show "x \<in> R \<union> pagerankSet ns"
    by (auto simp: pagerankSet_def [of "map f ns" for f] assign_type_pagerank
        dest: recommendation_type_in_pagerankSet)
next
  fix x
  assume x: "x \<in> R \<union> pagerankSet ns"
  show "x \<in> R \<union> pagerankSet (map (assign_type R (pagerankSet ns) C) ns)"
  proof (cases "x \<in> R")
    case True
    then show ?thesis by simp
  next
    case False
    with x have xP: "x \<in> pagerankSet ns" by simp
    then obtain n where n: "n \<in> set ns" "node_id n = x"
      by (auto simp: pagerankSet_def)
    with False xP have "node_type (assign_type R (pagerankSet ns) C n) = JStr ''pagerank''"
      by (simp add: assign_type_pagerank)
    with n have "x \<in> pagerankSet (map (assign_type R (pagerankSet ns) C) ns)"
      unfolding in_pagerankSet [of x "map f ns" for f]
      by (intro bexI [of _ "assign_type R (pagerankSet ns) C n"]) simp_all
    then show ?thesis by simp
  qed
qed

lemma assign_type_again:
  assumes "R \<union> P' = R \<union> P"
  shows "assign_type R P' C (assign_type R P C n) = assign_type R P C n"
proof -
  from assms have "node_id n \<notin> R \<Longrightarrow> node_id n \<in> P' \<longleftrightarrow> node_id n \<in> P"
    by blast
  then show ?thesis by (auto simp: assign_type_def)
qed

section \<open>Precedence of the roles\<close>

text \<open>
  C2. A node whose id is in \<open>recommendedIds\<close> is classified \<open>recommended\<close> and never
  \<open>pagerank\<close>, also when it is pagerank-tagged (its id is in the pagerank set, or its
  \<open>recommendation_type\<close> is \<open>'pagerank'\<close>). The order is recommended, then pagerank,
  then connected, then other: a pagerank-tagged node outside \<open>recommendedIds\<close> is
  \<open>pagerank\<close> whatever the connected set holds, and an untagged node outside
  \<open>recommendedIds\<close> is \<open>connected\<close> when its id is in the connected set and \<open>other\<close>
  when it is not.
\<close>

theorem role_precedence:
  assumes "connectedSet (set recommendedIds) (pagerankSet (nodes data)) (links data) {} = Inr C"
    and "classify recommendedIds data = Inr data'"
    and "i < length (nodes data)"
  shows "(node_id (nodes data ! i) \<in> set recommendedIds \<longrightarrow>
            node_type (nodes data' ! i) = JStr ''recommended'' \<and>
            node_type (nodes data' ! i) \<noteq> JStr ''pagerank'') \<and>
         (node_id (nodes data ! i) \<notin> set recommendedIds \<and>
          (node_id (nodes data ! i) \<in> pagerankSet (nodes data) \<or>
           recommendation_type (nodes data ! i) = JStr ''pagerank'') \<longrightarrow>
            node_type (nodes data' ! i) = JStr ''pagerank'') \<and>
         (node_id (nodes data ! i) \<notin> set recommendedIds \<and>
          node_id (nodes data ! i) \<notin> pagerankSet (nodes data) \<and>
          recommendation_type (nodes data ! i) \<noteq> JStr ''pagerank'' \<and>
          node_id (nodes data ! i) \<in> C \<longrightarrow>
            node_type (nodes data' ! i) = JStr ''connected'') \<and>
         (node_id (nodes data ! i) \<notin> set recommendedIds \<and>
          node_id (nodes data ! i) \<notin> pagerankSet (nodes data) \<and>
          recommendation_type (nodes data ! i) \<noteq> JStr ''pagerank'' \<and>
          node_id (nodes data ! i) \<notin> C \<longrightarrow>
            node_type (nodes data' ! i) = JStr ''other'')"
proof -
  from assms(1,2) have "data' = data\<lparr>nodes :=
      map (assign_type (set recommendedIds) (pagerankSet (nodes data)) C) (nodes data)\<rparr>"
    by (simp add: classify_def Let_def)
  with assms(3) have "nodes data' ! i =
      assign_type (set recommendedIds) (pagerankSet (nodes data)) C (nodes data ! i)"
    by simp
  then show ?thesis by (simp add: assign_type_def)
qed

theorem role_precedence_witness:
  "node_id (nodes scenario_A ! 0) \<in> set [JNum 1] \<and>
   node_id (nodes scenario_A ! 0) \<in> pagerankSet (nodes scenario_A) \<and>
   (\<exists>d. classify [JNum 1] scenario_A = Inr d \<and>
        node_type (nodes d ! 0) = JStr ''recommended'')"
proof -
  have c: "connectedSet (set [JNum 1]) (pagerankSet (nodes scenario_A)) (links scenario_A) {} = Inr {}"
    by (simp add: scenario_A_def bare_node_def pagerankSet_def link_body_def if_has_add_def)
  have d: "classify [JNum 1] scenario_A =
      Inr (scenario_A\<lparr>nodes :=
        [(bare_node (JNum 1) (JStr ''pagerank''))\<lparr>node_type := JStr ''recommended''\<rparr>,
         (bare_node (JNum 2) JUndefined)\<lparr>node_type := JStr ''other''\<rparr>]\<rparr>)"
    by (simp add: classify_def scenario_A_def bare_node_def pagerankSet_def link_body_def
        if_has_add_def assign_type_def)
  have i: "0 < length (nodes scenario_A)"
    by (simp add: scenario_A_def)
  from role_precedence [OF c d i] d show ?thesis
    by (simp add: scenario_A_def bare_node_def pagerankSet_def)
qed

section \<open>Totality\<close>

text \<open>
  C3. When no end of a link is \<open>undefined\<close> or \<open>null\<close> the classification pass runs to
  its end, and after a pass that ran to its end the node list is the input node list, node
  for node, each node carrying in its single \<open>type\<close> field one of the four roles
  \<open>recommended\<close>, \<open>pagerank\<close>, \<open>connected\<close>, \<open>other\<close>.
\<close>

theorem every_node_has_one_role:
  "(readable_links (links data) \<longrightarrow> (\<exists>data'. classify recommendedIds data = Inr data')) \<and>
   (\<forall>data'. classify recommendedIds data = Inr data' \<longrightarrow>
      map node_id (nodes data') = map node_id (nodes data) \<and>
      (\<forall>n \<in> set (nodes data'). node_type n \<in> roles))"
proof (intro conjI impI allI)
  assume "readable_links (links data)"
  then show "\<exists>data'. classify recommendedIds data = Inr data'"
    by (rule classify_readable)
next
  fix data'
  assume "classify recommendedIds data = Inr data'"
  then obtain C where d: "data' = data\<lparr>nodes :=
      map (assign_type (set recommendedIds) (pagerankSet (nodes data)) C) (nodes data)\<rparr>"
    by (rule classify_Inr)
  show "map node_id (nodes data') = map node_id (nodes data)"
    by (simp add: d comp_def)
  show "\<forall>n \<in> set (nodes data'). node_type n \<in> roles"
    by (auto simp: d assign_type_roles)
qed

theorem every_node_has_one_role_witness:
  "readable_links (links scenario_A) \<and>
   (\<exists>d. classify [] scenario_A = Inr d \<and>
        map node_id (nodes d) = [JNum 1, JNum 2] \<and>
        (\<forall>n \<in> set (nodes d). node_type n \<in> roles))"
proof -
  have r: "readable_links (links scenario_A)"
    by (simp add: scenario_A_def readable_links_def readable_def)
  have m: "map node_id (nodes scenario_A) = [JNum 1, JNum 2]"
    by (simp add: scenario_A_def bare_node_def)
  from every_node_has_one_role [of scenario_A "[]"] r m show ?thesis
    by auto
qed

section \<open>Idempotence\<close>

text \<open>
  C4. Running the classification again, on the same \<open>recommendedIds\<close> and on the document
  that the first run annotated, gives that same document: every node keeps the role the
  first run gave it. (That two runs on equal inputs give equal outputs holds of any
  function of the model.)
\<close>

theorem classify_idempotent:
  assumes "classify recommendedIds data = Inr data'"
  shows "classify recommendedIds data' = Inr data'"
proof -
  let ?R = "set recommendedIds" and ?P = "pagerankSet (nodes data)"
  from assms obtain C where
    c: "connectedSet ?R ?P (links data) {} = Inr C"
    and d: "data' = data\<lparr>nodes := map (assign_type ?R ?P C) (nodes data)\<rparr>"
    by (rule classify_Inr)
  let ?P' = "pagerankSet (nodes data')"
  have u: "?R \<union> ?P' = ?R \<union> ?P"
    by (simp add: d pagerankSet_after_pass)
  have "connectedSet ?R ?P' (links data') {} = connectedSet ?R ?P (links data) {}"
    using connectedSet_union_cong [OF u] by (simp add: d)
  with c have c': "connectedSet ?R ?P' (links data') {} = Inr C"
    by simp
  have nd: "nodes data' = map (assign_type ?R ?P C) (nodes data)"
    by (simp add: d)
  have "map (assign_type ?R ?P' C) (map (assign_type ?R ?P C) (nodes data)) =
      map (assign_type ?R ?P C) (nodes data)"
    by (simp add: assign_type_again [OF u])
  then have "map (assign_type ?R ?P' C) (nodes data') = nodes data'"
    by (simp only: nd)
  with c' show ?thesis
    by (simp add: classify_def Let_def)
qed

theorem classify_idempotent_witness:
  "\<exists>d. classify [JNum 2] scenario_A = Inr d \<and> classify [JNum 2] d = Inr d \<and>
       map node_type (nodes d) = [JStr ''pagerank'', JStr ''recommended'']"
proof -
  have d: "classify [JNum 2] scenario_A =
      Inr (scenario_A\<lparr>nodes :=
        [(bare_node (JNum 1) (JStr ''pagerank''))\<lparr>node_type := JStr ''pagerank''\<rparr>,
         (bare_node (JNum 2) JUndefined)\<lparr>node_type := JStr ''recommended''\<rparr>]\<rparr>)"
    by (simp add: classify_def scenario_A_def bare_node_def pagerankSet_def link_body_def
        if_has_add_def assign_type_def)
  from classify_idempotent [OF d] d show ?thesis
    by simp
qed

section \<open>Frame\<close>

text \<open>
  C7. Classification only annotates the nodes: the links of the document after the pass are
  the links before it (their \<open>similarity_score\<close> included), and every node is the node
  that was at its place, unchanged in every field but \<open>type\<close>; its \<open>value\<close> in particular
  is the one it had.
\<close>

theorem classify_frame:
  assumes "classify recommendedIds data = Inr data'"
  shows "links data' = links data \<and>
         length (nodes data') = length (nodes data) \<and>
         (\<forall>i < length (nodes data).
            (nodes data' ! i)\<lparr>node_type := node_type (nodes data ! i)\<rparr> = nodes data ! i \<and>
            node_value (nodes data' ! i) = node_value (nodes data ! i))"
proof -
  from assms obtain C where d: "data' = data\<lparr>nodes :=
      map (assign_type (set recommendedIds) (pagerankSet (nodes data)) C) (nodes data)\<rparr>"
    by (rule classify_Inr)
  have "node_value (assign_type R P C n) = node_value n" for R P C n
    by (simp add: assign_type_def)
  then show ?thesis
    by (simp add: d assign_type_restore)
qed

theorem classify_frame_witness:
  "\<exists>d. classify [] scenario_A = Inr d \<and> links d = links scenario_A \<and>
       length (nodes d) = 2 \<and>
       (nodes d ! 1)\<lparr>node_type := JUndefined\<rparr> = bare_node (JNum 2) JUndefined"
proof -
  have d: "classify [] scenario_A =
      Inr (scenario_A\<lparr>nodes :=
        [(bare_node (JNum 1) (JStr ''pagerank''))\<lparr>node_type := JStr ''pagerank''\<rparr>,
         (bare_node (JNum 2) JUndefined)\<lparr>node_type := JStr ''other''\<rparr>]\<rparr>)"
    by (simp add: classify_def scenario_A_def bare_node_def pagerankSet_def link_body_def
        if_has_add_def assign_type_def)
  from classify_frame [OF d] d show ?thesis
    by (simp add: scenario_A_def bare_node_def)
qed

section \<open>The pagerank set on a fetched document\<close>

text \<open>
  C10. On a freshly fetched document no node has a \<open>type\<close> property, so \<open>n.type\<close> reads
  \<open>undefined\<close> for every node; then the pagerank set is exactly the set of the ids of the
  nodes whose \<open>recommendation_type\<close> is \<open>'pagerank'\<close>.
\<close>

theorem pagerankSet_fresh:
  assumes "\<forall>n \<in> set ns. node_type n = JUndefined"
  shows "pagerankSet ns = pagerankSet_by_recommendation_type ns"
proof -
  from assms have "filter (\<lambda>n. node_type n = JStr ''pagerank'' \<or>
      recommendation_type n = JStr ''pagerank'') ns =
    filter (\<lambda>n. recommendation_type n = JStr ''pagerank'') ns"
    by (intro filter_cong) auto
  then show ?thesis
    by (simp add: pagerankSet_def pagerankSet_by_recommendation_type_def)
qed

theorem pagerankSet_fresh_witness:
  "map node_type (nodes scenario_A) = [JUndefined, JUndefined] \<and>
   pagerankSet (nodes scenario_A) = pagerankSet_by_recommendation_type (nodes scenario_A) \<and>
   pagerankSet (nodes scenario_A) = {JNum 1}"
proof -
  have f: "\<forall>n \<in> set (nodes scenario_A). node_type n = JUndefined"
    by (simp add: scenario_A_def bare_node_def)
  have "pagerankSet_by_recommendation_type (nodes scenario_A) = {JNum 1}"
    by (simp add: pagerankSet_by_recommendation_type_def scenario_A_def bare_node_def)
  moreover have "map node_type (nodes scenario_A) = [JUndefined, JUndefined]"
    by (simp add: scenario_A_def bare_node_def)
  ultimately show ?thesis
    using pagerankSet_fresh [OF f] by simp
qed

section \<open>Radii\<close>

text \<open>
  C8. The rendered radius of a node is \<open>max(8, value * 20)\<close>, times 1.1 when its type is
  \<open>recommended\<close> or \<open>pagerank\<close>, times 1.05 when it is \<open>connected\<close>, and times 1
  otherwise (so for \<open>other\<close>); it is never below 8.
\<close>

theorem radius_by_role:
  "radius d =
     max 8 (node_value d * 20) *
       (if node_type d = JStr ''recommended'' \<or> node_type d = JStr ''pagerank'' then 11 / 10
        else if node_type d = JStr ''connected'' then 105 / 100
        else 1) \<and>
   8 \<le> radius d"
proof -
  let ?b = "max 8 (node_value d * 20)"
  have b: "8 \<le> ?b" by simp
  then have "8 \<le> ?b * (11 / 10)" and "8 \<le> ?b * (105 / 100)"
    by linarith+
  with b show ?thesis
    by (simp add: radius_def Let_def)
qed

text \<open>
  C5. The specification wants the rendered radius to be the radius of the collision
  force as well. The collision force is given the constant 20: a recommended node of
  value 1 is drawn with radius 22 and collides with radius 20.
\<close>

theorem collision_radius_counterexample:
  "radius promoted_node = 22 \<and> collision_radius promoted_node = 20 \<and>
   radius promoted_node \<noteq> collision_radius promoted_node"
  by (simp add: radius_def collision_radius_def promoted_node_def bare_node_def)

text \<open>
  C5, as the code has it. The collision radius is 20 for every node, whatever its value
  and type; the rendered radius of a node whose value is in \<open>[0, 1]\<close> lies between 8 and
  22, on either side of the collision radius.
\<close>

theorem collision_radius_constant:
  "collision_radius d = 20 \<and>
   (0 \<le> node_value d \<and> node_value d \<le> 1 \<longrightarrow> 8 \<le> radius d \<and> radius d \<le> 22)"
proof -
  let ?b = "max 8 (node_value d * 20)"
  have lo: "8 \<le> ?b" by simp
  have "0 \<le> node_value d \<and> node_value d \<le> 1 \<longrightarrow> ?b \<le> 20"
    by simp
  moreover from lo have "8 \<le> ?b * (11 / 10)" "8 \<le> ?b * (105 / 100)"
    by linarith+
  moreover have "?b \<le> 20 \<longrightarrow> ?b * (11 / 10) \<le> 22 \<and> ?b * (105 / 100) \<le> 22"
    by linarith
  ultimately show ?thesis
    using lo by (auto simp: radius_def collision_radius_def Let_def)
qed

theorem collision_radius_constant_witness:
  "0 \<le> node_value promoted_node \<and> node_value promoted_node \<le> 1 \<and>
   collision_radius promoted_node = 20 \<and> radius promoted_node = 22"
proof -
  have v: "0 \<le> node_value promoted_node \<and> node_value promoted_node \<le> 1"
    by (simp add: promoted_node_def bare_node_def)
  have "22 \<le> radius promoted_node"
    by (simp add: radius_def promoted_node_def bare_node_def)
  with collision_radius_constant [of promoted_node] v show ?thesis
    by simp
qed

section \<open>Facts about the link force\<close>






lemma resolve_end_known:
  assumes "readable e" and "\<not> unknown_end ns e"
  shows "\<exists>i. resolve_end ns e = Inr (Obj i) \<and> get_id e \<in> {Inr i, Inr JUndefined}"
  using assms
  by (cases "(ns, e)" rule: resolve_end.cases) (simp_all add: readable_def find_node_def)

lemma initialize_link_known:
  assumes "readable (source l)" and "readable (target l)"
    and "\<not> unknown_end ns (source l)" and "\<not> unknown_end ns (target l)"
  shows "\<exists>i j. initialize_link ns l = Inr (l\<lparr>source := Obj i, target := Obj j\<rparr>)"
proof -
  from resolve_end_known [OF assms(1,3)]
  obtain i where i: "resolve_end ns (source l) = Inr (Obj i)" by blast
  from resolve_end_known [OF assms(2,4)]
  obtain j where j: "resolve_end ns (target l) = Inr (Obj j)" by blast
  from i j show ?thesis
    by (intro exI [of _ i] exI [of _ j]) (simp add: initialize_link_def)
qed



text \<open>
  When every end names a node the initialisation runs through, and every end of the links
  it leaves behind is an object.
\<close>

lemma forceLink_initialize_known:
  assumes "readable_links ls" and "\<not> has_unknown_end ns ls"
  shows "\<exists>ls'. forceLink_initialize ns ls = Inr ls' \<and>
           map similarity_score ls' = map similarity_score ls \<and>
           list_all (\<lambda>l. (\<exists>i. source l = Obj i) \<and> (\<exists>j. target l = Obj j)) ls'"
  using assms
proof (induction ls)
  case Nil
  then show ?case by simp
next
  case (Cons l ls)
  from Cons.prems(1) have rs: "readable (source l)" and rt: "readable (target l)"
    and rest: "readable_links ls"
    by (simp_all add: readable_links_def)
  from Cons.prems(2) have ks: "\<not> unknown_end ns (source l)" and kt: "\<not> unknown_end ns (target l)"
    and krest: "\<not> has_unknown_end ns ls"
    by (simp_all add: has_unknown_end_def)
  from initialize_link_known [OF rs rt ks kt]
  obtain i j where "initialize_link ns l = Inr (l\<lparr>source := Obj i, target := Obj j\<rparr>)"
    by blast
  with Cons.IH [OF rest krest] show ?case by auto
qed

text \<open>
  Scenario A is drawn, and the lines are bound to links whose ends the link force has
  replaced by objects.
\<close>

lemma scenario_A_scene:
  "fetchAndRenderGraph [] scenario_A =
     Inr \<lparr>simulation_nodes =
            [(bare_node (JNum 1) (JStr ''pagerank''))\<lparr>node_type := JStr ''pagerank''\<rparr>,
             (bare_node (JNum 2) JUndefined)\<lparr>node_type := JStr ''other''\<rparr>],
          force_links = [\<lparr>source = Obj (JNum 1), target = Obj (JNum 2), similarity_score = 1\<rparr>],
          line_data = [\<lparr>source = Obj (JNum 1), target = Obj (JNum 2), similarity_score = 1\<rparr>],
          circle_data =
            [(bare_node (JNum 1) (JStr ''pagerank''))\<lparr>node_type := JStr ''pagerank''\<rparr>,
             (bare_node (JNum 2) JUndefined)\<lparr>node_type := JStr ''other''\<rparr>],
          circle_r = [88 / 10, 8]\<rparr>"
  by (simp add: fetchAndRenderGraph_def classify_def scenario_A_def bare_node_def
      pagerankSet_def link_body_def if_has_add_def assign_type_def radius_def
      initialize_link_def find_node_def)

section \<open>Edges whose ends are not nodes\<close>




end
